theory Spec2Isabelle
  imports Main "HOL-Library.Word"
begin

section \<open>The in-memory limiter of the stream replicator\<close>

text \<open>
  The development follows \<^verbatim>\<open>limiter/memory/memory.go\<close>. One \<^verbatim>\<open>Limiter\<close> is modelled,
  run sequentially: the mutex \<^verbatim>\<open>mu\<close> and the logger \<^verbatim>\<open>log\<close> carry no data of their own and
  are left out. Of the background goroutines, the functions that \<^verbatim>\<open>cacher\<close> and \<^verbatim>\<open>scrubber\<close>
  call on every tick are modelled (\<^verbatim>\<open>writeCache\<close>, \<^verbatim>\<open>scrub\<close>); the gauge that \<^verbatim>\<open>promUpdater\<close>
  sets is not.
\<close>

subsection \<open>Time\<close>

text \<open>
  A \<^verbatim>\<open>time.Time\<close> is an instant, counted in nanoseconds on one time line; the wall clock
  and the monotonic clock of Go are taken to agree. A \<^verbatim>\<open>time.Duration\<close> is a signed 64-bit
  count of nanoseconds, and arithmetic on durations wraps around as Go's \<^verbatim>\<open>int64\<close> does.
  Every call of \<^verbatim>\<open>time.Now()\<close> becomes a parameter \<open>now\<close> of the function that makes it.
\<close>

type_synonym time = int

type_synonym Duration = "64 word"

definition Minute :: Duration where
  "Minute = 60000000000"

definition Add :: "time \<Rightarrow> Duration \<Rightarrow> time" where
  "Add t d = t + sint d"

definition Before :: "time \<Rightarrow> time \<Rightarrow> bool" where
  "Before t u = (t < u)"

subsection \<open>The limiter\<close>

record Limiter =
  key :: string
  age :: Duration
  topic :: string
  statefile :: string
  seen :: "string \<rightharpoonup> time"

definition shouldProcess :: "Limiter \<Rightarrow> time \<Rightarrow> string \<Rightarrow> bool" where
  "shouldProcess m now val =
     (if val = '''' then True
      else case seen m val of
             None \<Rightarrow> True
           | Some t \<Rightarrow>
               (let oldest = Add now (- 1 * age m)
                in if Before t oldest then True else False))"

text \<open>
  \<^verbatim>\<open>ProcessAndRecord\<close>. The message type and the error type of the callback are left
  open. \<open>GetBytes msg k\<close> stands for \<^verbatim>\<open>gjson.GetBytes(msg.Data, k).String()\<close>, a library
  call. The callback \<open>f\<close> is a function of the message and the decision that returns
  \<open>None\<close> for \<^verbatim>\<open>nil\<close>; what it does outside the limiter is not part of the model. The
  function reads the clock twice: \<open>now\<close> in \<^verbatim>\<open>shouldProcess\<close>, \<open>now'\<close> when it records. The
  three Prometheus counters are kept for the label pair of this limiter.
\<close>

record counters =
  passedCtr :: nat
  skippedCtr :: nat
  errCtr :: nat

definition ProcessAndRecord ::
  "('msg \<Rightarrow> string \<Rightarrow> string) \<Rightarrow> Limiter \<Rightarrow> counters \<Rightarrow> time \<Rightarrow> time \<Rightarrow> 'msg
     \<Rightarrow> ('msg \<Rightarrow> bool \<Rightarrow> 'e option) \<Rightarrow> 'e option \<times> Limiter \<times> counters" where
  "ProcessAndRecord GetBytes m c now now' msg f =
     (if key m = '''' then (f msg True, m, c\<lparr>passedCtr := passedCtr c + 1\<rparr>)
      else
        let val = GetBytes msg (key m);
            process = shouldProcess m now val;
            c1 = (if process then c\<lparr>passedCtr := passedCtr c + 1\<rparr>
                  else c\<lparr>skippedCtr := skippedCtr c + 1\<rparr>)
        in case f msg process of
             Some err \<Rightarrow> (Some err, m, c1\<lparr>errCtr := errCtr c1 + 1\<rparr>)
           | None \<Rightarrow>
               (if process then (None, m\<lparr>seen := (seen m)(val \<mapsto> now')\<rparr>, c1)
                else (None, m, c1)))"

subsection \<open>Scrubbing\<close>

text \<open>
  \<^verbatim>\<open>scrub\<close> and \<^verbatim>\<open>readCache\<close> compute the same \<^verbatim>\<open>killtime\<close> and run the same loop
  \<^verbatim>\<open>for i, t := range m.seen { if t.Before(killtime) { delete(m.seen, i) } }\<close>.
  The loop visits every entry once and deletes the entries it selects, whatever the
  order of the iteration, so on a map it is written key by key.
\<close>

definition killtime :: "Limiter \<Rightarrow> time \<Rightarrow> time" where
  "killtime m now = Add now ((- 1 * age m) - (10 * Minute))"

definition delete_before :: "time \<Rightarrow> (string \<rightharpoonup> time) \<Rightarrow> (string \<rightharpoonup> time)" where
  "delete_before kt s =
     (\<lambda>i. case s i of
            None \<Rightarrow> None
          | Some t \<Rightarrow> if Before t kt then None else Some t)"

definition scrub :: "Limiter \<Rightarrow> time \<Rightarrow> Limiter" where
  "scrub m now = m\<lparr>seen := delete_before (killtime m now) (seen m)\<rparr>"

subsection \<open>Files and JSON\<close>

text \<open>
  The file system is a map from paths to file contents; \<^verbatim>\<open>ioutil.ReadFile\<close> fails for a
  path with no file, and no other failure of the read is modelled. The bytes of a file are
  abstracted to what \<^verbatim>\<open>json.Unmarshal\<close> into a \<^verbatim>\<open>map[string]time.Time\<close> makes of them:
  \<^item> \<open>Json es ok\<close> is a JSON object. The decoder stores the members one after the other
    and stops at the first member whose value is not a time stamp; \<open>es\<close> holds the
    members it stores (a later duplicate of a key overriding an earlier one) and \<open>ok\<close>
    tells whether it reached the end of the object.
  \<^item> \<open>NotJson\<close> is everything the decoder rejects before it stores anything: bytes that
    are not a JSON value, among them the empty file and every proper prefix of an
    encoded object, and JSON values that are not objects.
  The document \<^verbatim>\<open>null\<close>, which makes the decoder replace the map by \<^verbatim>\<open>nil\<close>, is outside
  the model.

  \<^verbatim>\<open>json.Marshal\<close> writes a JSON object with one member for every entry of the map, in
  the order of the keys. It does not write every key as it is: each byte of a key that
  is not part of a valid UTF-8 sequence is written as U+FFFD, so such a key is read back
  changed, and two keys that are written alike are read back as one entry. A key that is
  valid UTF-8 and a time stamp are read back as they were. The encoding is a parameter of
  \<^verbatim>\<open>Marshal\<close> and \<^verbatim>\<open>writeCache\<close>: \<open>encode s\<close> stands for the entries that the decoder reads from
  the object that \<^verbatim>\<open>json.Marshal\<close> writes for the map \<open>s\<close>. Nothing is assumed of it in the
  definitions; a theorem that needs \<open>encode s = s\<close>, which holds of a map whose keys are
  all valid UTF-8, says so.

  What the environment decides during one call of \<^verbatim>\<open>writeCache\<close> is collected in a
  record: whether the encoder fails, the name of the temporary file that
  \<^verbatim>\<open>ioutil.TempFile\<close> creates (\<open>None\<close> when it fails), and whether writing, closing and
  renaming fail. \<^verbatim>\<open>ioutil.TempFile\<close> opens the file exclusively, so it never replaces a
  file that exists; the new file is empty. A failed write leaves a proper prefix of the
  bytes in the temporary file. \<^verbatim>\<open>os.Rename\<close> is the atomic rename of the operating system:
  it either fails and changes nothing or moves the whole file.
\<close>

datatype content = Json "string \<rightharpoonup> time" bool | NotJson

type_synonym files = "string \<rightharpoonup> content"

datatype error =
    ErrCacheNotEmpty
  | ErrNotExist
  | ErrUnmarshal
  | ErrMarshal
  | ErrTempFile
  | ErrWrite
  | ErrClose
  | ErrRename

record io =
  marshal_fails :: bool
  tempfile_name :: "string option"
  write_fails :: bool
  close_fails :: bool
  rename_fails :: bool

definition ReadFile :: "files \<Rightarrow> string \<Rightarrow> error + content" where
  "ReadFile fs path = (case fs path of None \<Rightarrow> Inl ErrNotExist | Some d \<Rightarrow> Inr d)"

definition Unmarshal :: "content \<Rightarrow> (string \<rightharpoonup> time) \<Rightarrow> error option \<times> (string \<rightharpoonup> time)" where
  "Unmarshal d s =
     (case d of
        NotJson \<Rightarrow> (Some ErrUnmarshal, s)
      | Json es ok \<Rightarrow> (if ok then None else Some ErrUnmarshal, s ++ es))"

definition Marshal ::
  "((string \<rightharpoonup> time) \<Rightarrow> (string \<rightharpoonup> time)) \<Rightarrow> io \<Rightarrow> (string \<rightharpoonup> time) \<Rightarrow> error + content" where
  "Marshal encode env s =
     (if marshal_fails env then Inl ErrMarshal else Inr (Json (encode s) True))"

definition TempFile :: "io \<Rightarrow> files \<Rightarrow> error + string \<times> files" where
  "TempFile env fs =
     (case tempfile_name env of
        None \<Rightarrow> Inl ErrTempFile
      | Some name \<Rightarrow>
          if fs name \<noteq> None then Inl ErrTempFile
          else Inr (name, fs(name \<mapsto> NotJson)))"

definition Write :: "io \<Rightarrow> string \<Rightarrow> content \<Rightarrow> files \<Rightarrow> error option \<times> files" where
  "Write env name d fs =
     (if write_fails env then (Some ErrWrite, fs(name \<mapsto> NotJson))
      else (None, fs(name \<mapsto> d)))"

definition Close :: "io \<Rightarrow> error option" where
  "Close env = (if close_fails env then Some ErrClose else None)"

definition Rename :: "io \<Rightarrow> string \<Rightarrow> string \<Rightarrow> files \<Rightarrow> error option \<times> files" where
  "Rename env oldpath newpath fs =
     (if rename_fails env \<or> newpath = '''' \<or> fs oldpath = None then (Some ErrRename, fs)
      else if oldpath = newpath then (None, fs)
      else (None, (fs(newpath := fs oldpath))(oldpath := None)))"

subsection \<open>Loading and saving the cache\<close>

text \<open>
  \<^verbatim>\<open>readCache\<close> returns the error of the first step that fails. \<^verbatim>\<open>json.Unmarshal\<close> decodes
  into \<^verbatim>\<open>m.seen\<close> itself, so when it fails the map keeps the members decoded before the
  failure. \<^verbatim>\<open>writeCache\<close> does not change the limiter; it returns the file system it
  leaves behind.
\<close>

definition readCache :: "Limiter \<Rightarrow> files \<Rightarrow> time \<Rightarrow> error option \<times> Limiter" where
  "readCache m fs now =
     (if statefile m = '''' then (None, m)
      else if seen m \<noteq> Map.empty then (Some ErrCacheNotEmpty, m)
      else case ReadFile fs (statefile m) of
             Inl err \<Rightarrow> (Some err, m)
           | Inr d \<Rightarrow>
               (case Unmarshal d (seen m) of
                  (Some err, s) \<Rightarrow> (Some err, m\<lparr>seen := s\<rparr>)
                | (None, s) \<Rightarrow>
                    (None, m\<lparr>seen := delete_before (killtime m now) s\<rparr>)))"

definition writeCache ::
  "((string \<rightharpoonup> time) \<Rightarrow> (string \<rightharpoonup> time)) \<Rightarrow> Limiter \<Rightarrow> io \<Rightarrow> files
     \<Rightarrow> error option \<times> files" where
  "writeCache encode m env fs =
     (if seen m = Map.empty then (None, fs)
      else case Marshal encode env (seen m) of
             Inl err \<Rightarrow> (Some err, fs)
           | Inr d \<Rightarrow>
               (case TempFile env fs of
                  Inl err \<Rightarrow> (Some err, fs)
                | Inr (tmpfile, fs1) \<Rightarrow>
                    (case Write env tmpfile d fs1 of
                       (Some err, fs2) \<Rightarrow> (Some err, fs2)
                     | (None, fs2) \<Rightarrow>
                         (case Close env of
                            Some err \<Rightarrow> (Some err, fs2)
                          | None \<Rightarrow> Rename env tmpfile (statefile m) fs2))))"

text \<open>
  \<^verbatim>\<open>Configure\<close> builds the limiter, calls \<^verbatim>\<open>readCache\<close>, drops its result and returns
  \<^verbatim>\<open>nil\<close>. \<open>StateDirectory\<close> is the value of \<^verbatim>\<open>config.StateDirectory()\<close> and \<open>Join\<close> stands for
  \<^verbatim>\<open>filepath.Join\<close>; the goroutines it starts are not modelled.
\<close>

definition Configure ::
  "(string \<Rightarrow> string \<Rightarrow> string) \<Rightarrow> string \<Rightarrow> files \<Rightarrow> time \<Rightarrow> string \<Rightarrow> Duration \<Rightarrow> string
     \<Rightarrow> error option \<times> Limiter" where
  "Configure Join StateDirectory fs now k a tp =
     (let m = \<lparr>key = k, age = a, topic = tp,
                statefile = (if StateDirectory \<noteq> '''' then Join StateDirectory (tp @ ''.json'')
                             else ''''),
                seen = Map.empty\<rparr>
      in (None, snd (readCache m fs now)))"

subsection \<open>Properties and example inputs\<close>

text \<open>
  \<open>no_future s now\<close>: no entry of the map \<open>s\<close> carries a time stamp after \<open>now\<close>. The same
  for the entries that the decoder takes from a file.
\<close>

definition no_future :: "(string \<rightharpoonup> time) \<Rightarrow> time \<Rightarrow> bool" where
  "no_future s now = (\<forall>v t. s v = Some t \<longrightarrow> t \<le> now)"

definition content_no_future :: "content \<Rightarrow> time \<Rightarrow> bool" where
  "content_no_future d now = (case d of Json es ok \<Rightarrow> no_future es now | NotJson \<Rightarrow> True)"

text \<open>
  Inputs for the examples: a limiter on the field \<^verbatim>\<open>id\<close> with a window of five seconds and
  an empty map; messages that are represented by the value of their field \<^verbatim>\<open>id\<close>; a
  callback that succeeds and one that fails; counters at zero; an environment in which
  every step of \<^verbatim>\<open>writeCache\<close> succeeds.
\<close>

definition example_limiter :: Limiter where
  "example_limiter =
     \<lparr>key = ''id'', age = 5000000000, topic = ''t'', statefile = ''/s/t.json'',
      seen = Map.empty\<rparr>"

definition example_GetBytes :: "string \<Rightarrow> string \<Rightarrow> string" where
  "example_GetBytes msg k = (if k = ''id'' then msg else '''')"

definition example_accept :: "string \<Rightarrow> bool \<Rightarrow> string option" where
  "example_accept msg process = None"

definition example_reject :: "string \<Rightarrow> bool \<Rightarrow> string option" where
  "example_reject msg process = Some ''failed''"

definition example_counters :: counters where
  "example_counters = \<lparr>passedCtr = 0, skippedCtr = 0, errCtr = 0\<rparr>"

text \<open>
  The encoding for the examples. It agrees with \<^verbatim>\<open>encoding/json\<close> on the maps whose keys are
  ASCII strings, the single byte \<^verbatim>\<open>0xFF\<close> or the three bytes of U+FFFD, and the examples use
  no other key: the byte \<^verbatim>\<open>0xFF\<close> is not valid UTF-8 and is written as U+FFFD; when both
  keys are in the map, the member of \<^verbatim>\<open>0xFF\<close> is written after the other one and
  overrides it in the decoder.
\<close>

definition example_encode :: "(string \<rightharpoonup> time) \<Rightarrow> (string \<rightharpoonup> time)" where
  "example_encode s =
     (\<lambda>k. if k = [CHR 0xFF] then None
          else if k = [CHR 0xEF, CHR 0xBF, CHR 0xBD] then
            (case s [CHR 0xFF] of None \<Rightarrow> s k | Some t \<Rightarrow> Some t)
          else s k)"

definition example_io :: io where
  "example_io =
     \<lparr>marshal_fails = False, tempfile_name = Some ''/s/memcache123'', write_fails = False,
      close_fails = False, rename_fails = False\<rparr>"

section \<open>Arithmetic on durations\<close>

lemma sint_Duration_range: "- (2 ^ 63) \<le> sint (d :: Duration) \<and> sint d < 2 ^ 63"
  using sint_ge [of d] sint_lt [of d] by simp

lemma sint_negate:
  "sint (d :: Duration) \<noteq> - (2 ^ 63) \<Longrightarrow> sint (- d) = - sint d"
  using sint_Duration_range [of d]
  by (simp add: sint_word_minus signed_take_bit_int_eq_self)

text \<open>The negation of the least duration wraps around to itself.\<close>

lemma sint_negate_min:
  assumes "sint (d :: Duration) = - (2 ^ 63)"
  shows "sint (- d) = - (2 ^ 63)"
proof -
  have "d = word_of_int (sint d)"
    by simp
  then have "d = - 9223372036854775808"
    using assms by simp
  then show ?thesis
    by simp
qed

lemma sint_minus_ten_minutes:
  "- (2 ^ 63) \<le> sint (d :: Duration) - 600000000000 \<Longrightarrow>
     sint (d - 10 * Minute) = sint d - 600000000000"
  using sint_Duration_range [of d]
  by (simp add: Minute_def sint_word_diff signed_take_bit_int_eq_self)

lemma oldest_exact:
  assumes "sint (age m) \<noteq> - (2 ^ 63)"
  shows "Add now (- 1 * age m) = now - sint (age m)"
  using sint_negate [OF assms] by (simp add: Add_def)

lemma killtime_exact:
  assumes "- (2 ^ 63) < sint (age m)" and "sint (age m) \<le> 2 ^ 63 - 600000000000"
  shows "killtime m now = now - sint (age m) - 600000000000"
proof -
  have n: "sint (- age m) = - sint (age m)"
    using assms(1) by (intro sint_negate) simp
  have "sint (- age m - 10 * Minute) = sint (- age m) - 600000000000"
    using assms(2) n by (intro sint_minus_ten_minutes) simp
  then show ?thesis
    using n by (simp add: killtime_def Add_def)
qed

section \<open>The decision\<close>

text \<open>
  C1. \<^verbatim>\<open>shouldProcess\<close> returns true for the empty value and for a value that is not in
  the map; for a value last seen at \<open>t\<close> it returns true exactly when the elapsed time
  \<open>now - t\<close> is strictly greater than the window. The window is any duration whose
  negation \<^verbatim>\<open>-1 * m.age\<close> is representable: every 64-bit duration but the least, so
  every window that is not negative.
\<close>

theorem shouldProcess_decision:
  assumes "sint (age m) \<noteq> - (2 ^ 63)"
  shows "shouldProcess m now val =
           (val = '''' \<or> seen m val = None \<or>
            (\<exists>t. seen m val = Some t \<and> sint (age m) < now - t))"
  unfolding shouldProcess_def oldest_exact [OF assms] Before_def
  by (auto split: option.splits)

text \<open>
  With a window of five seconds a value seen at second 1 is processed again at second 7
  and suppressed at second 2.
\<close>

theorem shouldProcess_decision_witness:
  "sint (age (example_limiter\<lparr>seen := [''x'' \<mapsto> 1000000000]\<rparr>)) \<noteq> - (2 ^ 63) \<and>
   shouldProcess (example_limiter\<lparr>seen := [''x'' \<mapsto> 1000000000]\<rparr>) 7000000000 ''x'' \<and>
   \<not> shouldProcess (example_limiter\<lparr>seen := [''x'' \<mapsto> 1000000000]\<rparr>) 2000000000 ''x''"
proof -
  have h: "sint (age (example_limiter\<lparr>seen := [''x'' \<mapsto> 1000000000]\<rparr>)) \<noteq> - (2 ^ 63)"
    by (simp add: example_limiter_def)
  show ?thesis
    using h shouldProcess_decision [OF h, of 7000000000 "''x''"]
      shouldProcess_decision [OF h, of 2000000000 "''x''"]
    by (simp add: example_limiter_def)
qed

text \<open>
  C9. At the boundary, when the elapsed time \<open>now - t\<close> of a value equals the window
  exactly, \<^verbatim>\<open>shouldProcess\<close> returns false. The value is one that reaches the lookup
  in the map, that is a non-empty one.
\<close>

theorem shouldProcess_boundary:
  assumes "val \<noteq> ''''" and "seen m val = Some t" and "now - t = sint (age m)"
  shows "\<not> shouldProcess m now val"
proof (cases "sint (age m) = - (2 ^ 63)")
  case True
  then have "sint (- age m) = - (2 ^ 63)"
    by (rule sint_negate_min)
  with True assms show ?thesis
    by (simp add: shouldProcess_def Add_def Before_def)
next
  case False
  then have "sint (- age m) = - sint (age m)"
    by (rule sint_negate)
  with assms show ?thesis
    by (simp add: shouldProcess_def Add_def Before_def)
qed

theorem shouldProcess_boundary_witness:
  "''x'' \<noteq> '''' \<and>
   seen (example_limiter\<lparr>seen := [''x'' \<mapsto> 1000000000]\<rparr>) ''x'' = Some 1000000000 \<and>
   6000000000 - 1000000000 = sint (age (example_limiter\<lparr>seen := [''x'' \<mapsto> 1000000000]\<rparr>)) \<and>
   \<not> shouldProcess (example_limiter\<lparr>seen := [''x'' \<mapsto> 1000000000]\<rparr>) 6000000000 ''x''"
proof -
  have h1: "''x'' \<noteq> ''''"
    by simp
  have h2: "seen (example_limiter\<lparr>seen := [''x'' \<mapsto> 1000000000]\<rparr>) ''x'' = Some 1000000000"
    by simp
  have h3: "6000000000 - 1000000000 =
      sint (age (example_limiter\<lparr>seen := [''x'' \<mapsto> 1000000000]\<rparr>))"
    by (simp add: example_limiter_def)
  show ?thesis
    using h1 h2 h3 shouldProcess_boundary [OF h1 h2 h3] by simp
qed

section \<open>Deciding, processing and recording\<close>

text \<open>
  C2. \<^verbatim>\<open>ProcessAndRecord\<close> changes the map only when the decision was to process and the
  callback succeeded. When the callback fails, its error is returned and the limiter is
  exactly as before the call; when the decision was to suppress, the limiter is
  unchanged, so the time stamp of the value is not updated.
\<close>

theorem ProcessAndRecord_frame:
  "case ProcessAndRecord GetBytes m c now now' msg f of
     (r, m', c') \<Rightarrow>
       (seen m' \<noteq> seen m \<longrightarrow>
          key m \<noteq> '''' \<and> shouldProcess m now (GetBytes msg (key m)) \<and>
          f msg True = None \<and> r = None) \<and>
       (\<forall>err. f msg (key m = '''' \<or> shouldProcess m now (GetBytes msg (key m))) = Some err \<longrightarrow>
          r = Some err \<and> m' = m) \<and>
       (key m \<noteq> '''' \<and> \<not> shouldProcess m now (GetBytes msg (key m)) \<longrightarrow> m' = m)"
  by (auto simp: ProcessAndRecord_def Let_def split: option.splits)

text \<open>
  Three calls for the value \<^verbatim>\<open>x\<close>: a first sighting with a callback that succeeds is
  recorded; a first sighting with a callback that fails returns the error and leaves
  the limiter as it was; a sighting one second after the last one is suppressed and
  leaves the limiter as it was.
\<close>

theorem ProcessAndRecord_frame_witness:
  "seen (fst (snd (ProcessAndRecord example_GetBytes example_limiter example_counters
       1000000000 1000000001 ''x'' example_accept))) ''x'' = Some 1000000001 \<and>
   ProcessAndRecord example_GetBytes example_limiter example_counters
       1000000000 1000000001 ''x'' example_reject =
     (Some ''failed'', example_limiter, \<lparr>passedCtr = 1, skippedCtr = 0, errCtr = 1\<rparr>) \<and>
   ProcessAndRecord example_GetBytes (example_limiter\<lparr>seen := [''x'' \<mapsto> 1000000000]\<rparr>)
       example_counters 2000000000 2000000001 ''x'' example_accept =
     (None, example_limiter\<lparr>seen := [''x'' \<mapsto> 1000000000]\<rparr>,
      \<lparr>passedCtr = 0, skippedCtr = 1, errCtr = 0\<rparr>)"
  using
    ProcessAndRecord_frame [where GetBytes = example_GetBytes and m = example_limiter
      and c = example_counters and now = 1000000000 and now' = 1000000001
      and msg = "''x''" and f = example_accept]
    ProcessAndRecord_frame [where GetBytes = example_GetBytes and m = example_limiter
      and c = example_counters and now = 1000000000 and now' = 1000000001
      and msg = "''x''" and f = example_reject]
    ProcessAndRecord_frame [where GetBytes = example_GetBytes
      and m = "example_limiter\<lparr>seen := [''x'' \<mapsto> 1000000000]\<rparr>"
      and c = example_counters and now = 2000000000 and now' = 2000000001
      and msg = "''x''" and f = example_accept]
  by (simp add: ProcessAndRecord_def shouldProcess_def example_limiter_def
      example_GetBytes_def example_accept_def example_reject_def example_counters_def
      Add_def Before_def)

text \<open>
  C3. Recording is not guarded for the empty value. When the key is configured, the
  extracted value is the empty string and the callback succeeds, \<^verbatim>\<open>ProcessAndRecord\<close>
  returns \<^verbatim>\<open>nil\<close>, counts the message as passed and sets the entry with the key \<^verbatim>\<open>""\<close> to
  the time of the record; every other entry is unchanged. That entry is never read by
  \<^verbatim>\<open>shouldProcess\<close>: the decision for every value at every time is the same as before.
\<close>

theorem ProcessAndRecord_empty_value:
  assumes "key m \<noteq> ''''" and "GetBytes msg (key m) = ''''" and "f msg True = None"
  shows "ProcessAndRecord GetBytes m c now now' msg f =
           (None, m\<lparr>seen := (seen m)('''' \<mapsto> now')\<rparr>, c\<lparr>passedCtr := passedCtr c + 1\<rparr>) \<and>
         shouldProcess (m\<lparr>seen := (seen m)('''' \<mapsto> now')\<rparr>) t v = shouldProcess m t v"
  using assms by (auto simp: ProcessAndRecord_def shouldProcess_def split: option.splits)

theorem ProcessAndRecord_empty_value_witness:
  "key example_limiter \<noteq> '''' \<and>
   example_GetBytes '''' (key example_limiter) = '''' \<and>
   example_accept '''' True = None \<and>
   ProcessAndRecord example_GetBytes example_limiter example_counters
       1000000000 1000000001 '''' example_accept =
     (None, example_limiter\<lparr>seen := ['''' \<mapsto> 1000000001]\<rparr>,
      \<lparr>passedCtr = 1, skippedCtr = 0, errCtr = 0\<rparr>)"
proof -
  have h1: "key example_limiter \<noteq> ''''"
    by (simp add: example_limiter_def)
  have h2: "example_GetBytes '''' (key example_limiter) = ''''"
    by (simp add: example_GetBytes_def)
  have h3: "example_accept '''' True = None"
    by (simp add: example_accept_def)
  show ?thesis
    using h1 h2 h3
      ProcessAndRecord_empty_value [where GetBytes = example_GetBytes and m = example_limiter
        and msg = "''''" and f = example_accept and c = example_counters
        and now = 1000000000 and now' = 1000000001, OF h1 h2 h3]
    by (simp add: example_limiter_def example_counters_def)
qed

text \<open>
  After a call with an empty extracted value and a callback that succeeds, the map,
  empty before, holds an entry with the key \<^verbatim>\<open>""\<close>.
\<close>

theorem ProcessAndRecord_empty_value_counterexample:
  "fst (ProcessAndRecord example_GetBytes example_limiter example_counters
       1000000000 1000000001 '''' example_accept) = None \<and>
   seen example_limiter '''' = None \<and>
   seen (fst (snd (ProcessAndRecord example_GetBytes example_limiter example_counters
       1000000000 1000000001 '''' example_accept))) '''' = Some 1000000001 \<and>
   seen (fst (snd (ProcessAndRecord example_GetBytes example_limiter example_counters
       1000000000 1000000001 '''' example_accept))) \<noteq> seen example_limiter"
proof -
  have r: "ProcessAndRecord example_GetBytes example_limiter example_counters
       1000000000 1000000001 '''' example_accept =
     (None, example_limiter\<lparr>seen := ['''' \<mapsto> 1000000001]\<rparr>,
      \<lparr>passedCtr = 1, skippedCtr = 0, errCtr = 0\<rparr>)"
    by (simp add: ProcessAndRecord_def shouldProcess_def example_limiter_def
        example_GetBytes_def example_accept_def example_counters_def)
  have e: "seen example_limiter = Map.empty"
    by (simp add: example_limiter_def)
  show ?thesis
    unfolding r by (simp add: e)
qed

section \<open>Loading the cache\<close>

text \<open>
  C7. With a state file configured, \<^verbatim>\<open>readCache\<close> on a limiter whose map is not empty
  returns the error \<^verbatim>\<open>last seen cache is not empty\<close> and leaves the limiter as it was. The
  result is the same for every file system: the file is not read.
\<close>

theorem readCache_not_empty:
  assumes "statefile m \<noteq> ''''" and "seen m \<noteq> Map.empty"
  shows "readCache m fs now = (Some ErrCacheNotEmpty, m)"
  using assms by (simp add: readCache_def)

theorem readCache_not_empty_witness:
  "statefile (example_limiter\<lparr>seen := [''x'' \<mapsto> 1000000000]\<rparr>) \<noteq> '''' \<and>
   seen (example_limiter\<lparr>seen := [''x'' \<mapsto> 1000000000]\<rparr>) \<noteq> Map.empty \<and>
   readCache (example_limiter\<lparr>seen := [''x'' \<mapsto> 1000000000]\<rparr>)
       [''/s/t.json'' \<mapsto> Json [''y'' \<mapsto> 2000000000] True] 3000000000 =
     (Some ErrCacheNotEmpty, example_limiter\<lparr>seen := [''x'' \<mapsto> 1000000000]\<rparr>)"
proof -
  have h1: "statefile (example_limiter\<lparr>seen := [''x'' \<mapsto> 1000000000]\<rparr>) \<noteq> ''''"
    by (simp add: example_limiter_def)
  have h2: "seen (example_limiter\<lparr>seen := [''x'' \<mapsto> 1000000000]\<rparr>) \<noteq> Map.empty"
    by simp
  show ?thesis
    using h1 h2
      readCache_not_empty [OF h1 h2,
        of "[''/s/t.json'' \<mapsto> Json [''y'' \<mapsto> 2000000000] True]" 3000000000]
    by simp
qed

text \<open>
  C6. With a state file configured, an empty map and no file at the path of the state
  file, \<^verbatim>\<open>readCache\<close> returns the error of \<^verbatim>\<open>ioutil.ReadFile\<close>, not \<^verbatim>\<open>nil\<close>, and leaves the
  limiter as it was, its map empty.
\<close>

theorem readCache_absent:
  assumes "statefile m \<noteq> ''''" and "seen m = Map.empty" and "fs (statefile m) = None"
  shows "readCache m fs now = (Some ErrNotExist, m)"
  using assms by (simp add: readCache_def ReadFile_def)

theorem readCache_absent_witness:
  "statefile example_limiter \<noteq> '''' \<and>
   seen example_limiter = Map.empty \<and>
   [''/s/other.json'' \<mapsto> NotJson] (statefile example_limiter) = None \<and>
   readCache example_limiter [''/s/other.json'' \<mapsto> NotJson] 1000000000 =
     (Some ErrNotExist, example_limiter)"
proof -
  have h1: "statefile example_limiter \<noteq> ''''"
    by (simp add: example_limiter_def)
  have h2: "seen example_limiter = Map.empty"
    by (simp add: example_limiter_def)
  have h3: "[''/s/other.json'' \<mapsto> NotJson] (statefile example_limiter) = None"
    by (simp add: example_limiter_def)
  show ?thesis
    using h1 h2 h3
      readCache_absent [where m = example_limiter and fs = "[''/s/other.json'' \<mapsto> NotJson]"
        and now = 1000000000, OF h1 h2 h3]
    by simp
qed

text \<open>On an empty file system \<^verbatim>\<open>readCache\<close> does not return \<^verbatim>\<open>nil\<close>.\<close>

theorem readCache_absent_counterexample:
  "statefile example_limiter = ''/s/t.json'' \<and>
   fst (readCache example_limiter Map.empty 1000000000) = Some ErrNotExist \<and>
   fst (readCache example_limiter Map.empty 1000000000) \<noteq> None"
  by (simp add: readCache_def ReadFile_def example_limiter_def)

text \<open>
  \<^verbatim>\<open>Configure\<close> drops the result of \<^verbatim>\<open>readCache\<close>: with no state file it still returns
  \<^verbatim>\<open>nil\<close>, and the limiter starts with an empty map.
\<close>

lemma Configure_absent:
  assumes "StateDirectory \<noteq> ''''" and "fs (Join StateDirectory (tp @ ''.json'')) = None"
  shows "Configure Join StateDirectory fs now k a tp =
           (None, \<lparr>key = k, age = a, topic = tp,
                   statefile = Join StateDirectory (tp @ ''.json''), seen = Map.empty\<rparr>)"
  using assms by (simp add: Configure_def readCache_def ReadFile_def Let_def)

section \<open>Saving the cache\<close>

text \<open>
  C5. \<^verbatim>\<open>writeCache\<close> touches the path of the state file in its last step only, the rename.
  The temporary file is a file of its own (\<^verbatim>\<open>ioutil.TempFile\<close> names it \<^verbatim>\<open>memcache\<close> followed
  by digits, the state file ends in \<^verbatim>\<open>.json\<close>). Then, whatever is returned:
  \<^item> when a step fails (the encoding, the creation of the temporary file, which also fails
    on a name that exists, the write, the close, or the rename, which also fails on an
    empty path), the content at the path of the state file is what it was before the
    call, and if the map is not empty the call returns an error;
  \<^item> when \<^verbatim>\<open>writeCache\<close> returns an error, the content at the path is what it was before;
  \<^item> when the map is not empty and \<^verbatim>\<open>writeCache\<close> returns \<^verbatim>\<open>nil\<close>, no step has failed and the
    path holds the complete encoding of the map;
  \<^item> when the map is empty, \<^verbatim>\<open>writeCache\<close> returns \<^verbatim>\<open>nil\<close> without running any step and the
    file system is unchanged.
  So the path never holds a partial write. The file system that is returned with the
  error of a step is the one an interruption at that step would leave.
\<close>

theorem writeCache_atomic:
  assumes "tempfile_name env \<noteq> Some (statefile m)"
  shows "case writeCache encode m env fs of
           (r, fs') \<Rightarrow>
             (marshal_fails env \<or> tempfile_name env = None \<or>
              (\<exists>name. tempfile_name env = Some name \<and> fs name \<noteq> None) \<or>
              write_fails env \<or> close_fails env \<or> rename_fails env \<or> statefile m = '''' \<longrightarrow>
                fs' (statefile m) = fs (statefile m) \<and> (seen m \<noteq> Map.empty \<longrightarrow> r \<noteq> None)) \<and>
             (r \<noteq> None \<longrightarrow> fs' (statefile m) = fs (statefile m)) \<and>
             (seen m \<noteq> Map.empty \<and> r = None \<longrightarrow>
                \<not> marshal_fails env \<and> tempfile_name env \<noteq> None \<and>
                \<not> write_fails env \<and> \<not> close_fails env \<and> \<not> rename_fails env \<and>
                fs' (statefile m) = Some (Json (encode (seen m)) True)) \<and>
             (seen m = Map.empty \<longrightarrow> r = None \<and> fs' = fs)"
proof (cases "seen m = Map.empty")
  case True
  then show ?thesis
    by (simp add: writeCache_def)
next
  case False
  show ?thesis
  proof (cases "tempfile_name env")
    case None
    with False show ?thesis
      by (simp add: writeCache_def Marshal_def TempFile_def)
  next
    case (Some name)
    with assms have "name \<noteq> statefile m"
      by simp
    with False Some show ?thesis
      by (auto simp: writeCache_def Marshal_def TempFile_def Write_def Close_def Rename_def)
  qed
qed

text \<open>
  A map with one entry and a state file from an earlier snapshot. When the close of the
  temporary file fails, \<^verbatim>\<open>writeCache\<close> returns that error and the state file still holds
  the earlier snapshot; the same when the write fails; when every step succeeds, the
  state file holds the new snapshot.
\<close>

theorem writeCache_atomic_witness:
  "tempfile_name example_io \<noteq>
     Some (statefile (example_limiter\<lparr>seen := [''x'' \<mapsto> 1000000000]\<rparr>)) \<and>
   close_fails (example_io\<lparr>close_fails := True\<rparr>) \<and>
   writeCache example_encode (example_limiter\<lparr>seen := [''x'' \<mapsto> 1000000000]\<rparr>)
       (example_io\<lparr>close_fails := True\<rparr>)
       [''/s/t.json'' \<mapsto> Json [''w'' \<mapsto> 500000000] True] =
     (Some ErrClose,
      [''/s/t.json'' \<mapsto> Json [''w'' \<mapsto> 500000000] True,
       ''/s/memcache123'' \<mapsto> Json [''x'' \<mapsto> 1000000000] True]) \<and>
   writeCache example_encode (example_limiter\<lparr>seen := [''x'' \<mapsto> 1000000000]\<rparr>)
       (example_io\<lparr>write_fails := True\<rparr>)
       [''/s/t.json'' \<mapsto> Json [''w'' \<mapsto> 500000000] True] =
     (Some ErrWrite,
      [''/s/t.json'' \<mapsto> Json [''w'' \<mapsto> 500000000] True, ''/s/memcache123'' \<mapsto> NotJson]) \<and>
   fst (writeCache example_encode (example_limiter\<lparr>seen := [''x'' \<mapsto> 1000000000]\<rparr>)
       example_io [''/s/t.json'' \<mapsto> Json [''w'' \<mapsto> 500000000] True]) = None \<and>
   snd (writeCache example_encode (example_limiter\<lparr>seen := [''x'' \<mapsto> 1000000000]\<rparr>)
       example_io [''/s/t.json'' \<mapsto> Json [''w'' \<mapsto> 500000000] True]) ''/s/t.json'' =
     Some (Json [''x'' \<mapsto> 1000000000] True) \<and>
   snd (writeCache example_encode (example_limiter\<lparr>seen := [''x'' \<mapsto> 1000000000]\<rparr>)
       example_io [''/s/t.json'' \<mapsto> Json [''w'' \<mapsto> 500000000] True]) ''/s/memcache123'' =
     None"
proof -
  let ?m = "example_limiter\<lparr>seen := [''x'' \<mapsto> 1000000000]\<rparr>"
  let ?fs = "[''/s/t.json'' \<mapsto> Json [''w'' \<mapsto> 500000000] True]"
  have e: "example_encode [''x'' \<mapsto> 1000000000] = [''x'' \<mapsto> 1000000000]"
    by (auto simp: example_encode_def fun_eq_iff)
  have h: "tempfile_name example_io \<noteq> Some (statefile ?m)"
    by (simp add: example_io_def example_limiter_def)
  have hc: "tempfile_name (example_io\<lparr>close_fails := True\<rparr>) \<noteq> Some (statefile ?m)"
    by (simp add: example_io_def example_limiter_def)
  have hw: "tempfile_name (example_io\<lparr>write_fails := True\<rparr>) \<noteq> Some (statefile ?m)"
    by (simp add: example_io_def example_limiter_def)
  have c: "writeCache example_encode ?m (example_io\<lparr>close_fails := True\<rparr>) ?fs =
      (Some ErrClose,
       [''/s/t.json'' \<mapsto> Json [''w'' \<mapsto> 500000000] True,
        ''/s/memcache123'' \<mapsto> Json [''x'' \<mapsto> 1000000000] True])"
    by (simp add: writeCache_def Marshal_def TempFile_def Write_def Close_def e example_io_def)
  have w: "writeCache example_encode ?m (example_io\<lparr>write_fails := True\<rparr>) ?fs =
      (Some ErrWrite,
       [''/s/t.json'' \<mapsto> Json [''w'' \<mapsto> 500000000] True, ''/s/memcache123'' \<mapsto> NotJson])"
    by (simp add: writeCache_def Marshal_def TempFile_def Write_def e example_io_def)
  have r: "fst (writeCache example_encode ?m example_io ?fs) = None"
    by (simp add: writeCache_def Marshal_def TempFile_def Write_def Close_def Rename_def
        example_io_def example_limiter_def)
  have t: "snd (writeCache example_encode ?m example_io ?fs) ''/s/memcache123'' = None"
    by (simp add: writeCache_def Marshal_def TempFile_def Write_def Close_def Rename_def
        example_io_def example_limiter_def)
  have n: "seen ?m \<noteq> Map.empty"
    by simp
  have s: "statefile ?m = ''/s/t.json''"
    by (simp add: example_limiter_def)
  have "snd (writeCache example_encode ?m example_io ?fs) (statefile ?m) =
      Some (Json (example_encode (seen ?m)) True)"
    using writeCache_atomic [OF h, where encode = example_encode and fs = ?fs] r n
    by (simp add: case_prod_beta)
  then have p: "snd (writeCache example_encode ?m example_io ?fs) ''/s/t.json'' =
      Some (Json [''x'' \<mapsto> 1000000000] True)"
    by (simp add: s e)
  show ?thesis
    using h c w r t p
      writeCache_atomic [OF hc, where encode = example_encode and fs = ?fs]
      writeCache_atomic [OF hw, where encode = example_encode and fs = ?fs]
    by simp
qed

text \<open>
  With an empty map \<^verbatim>\<open>writeCache\<close> returns \<^verbatim>\<open>nil\<close> and the path of the state file holds no
  encoding of the map: no file at all on an empty file system, an earlier snapshot where
  there is one.
\<close>

theorem writeCache_atomic_counterexample:
  "seen example_limiter = Map.empty \<and>
   fst (writeCache example_encode example_limiter example_io Map.empty) = None \<and>
   snd (writeCache example_encode example_limiter example_io Map.empty)
     (statefile example_limiter) = None \<and>
   snd (writeCache example_encode example_limiter example_io Map.empty)
     (statefile example_limiter) \<noteq> Some (Json (example_encode (seen example_limiter)) True)"
  by (simp add: writeCache_def example_limiter_def)

text \<open>
  A \<^verbatim>\<open>writeCache\<close> that returns \<^verbatim>\<open>nil\<close> for a map that is not empty has renamed the
  temporary file: a state file is configured and it holds the encoding of the map.
\<close>

lemma writeCache_success:
  assumes "seen m \<noteq> Map.empty" and "writeCache encode m env fs = (None, fs')"
  shows "statefile m \<noteq> '''' \<and> fs' (statefile m) = Some (Json (encode (seen m)) True)"
  using assms
  by (auto simp: writeCache_def Marshal_def TempFile_def Write_def Close_def Rename_def
      split: option.splits if_splits)

text \<open>
  Whatever the encoding and the window, the load brings back the encoded entries as
  \<^verbatim>\<open>scrub\<close> would leave them at the time of the load.
\<close>

lemma writeCache_readCache_encoded:
  assumes "seen m \<noteq> Map.empty" and "writeCache encode m env fs = (None, fs')"
  shows "readCache (m\<lparr>seen := Map.empty\<rparr>) fs' now =
           (None, m\<lparr>seen := delete_before (killtime m now) (encode (seen m))\<rparr>)"
proof -
  have "statefile m \<noteq> ''''" and "fs' (statefile m) = Some (Json (encode (seen m)) True)"
    using writeCache_success [OF assms] by simp_all
  then show ?thesis
    by (simp add: readCache_def ReadFile_def Unmarshal_def killtime_def)
qed

text \<open>
  C4. Take a map that is not empty and that the JSON encoding gives back as it is (a map
  whose keys are all valid UTF-8), and a window \<open>w\<close> for which the arithmetic of
  \<^verbatim>\<open>killtime\<close> does not wrap around (\<open>- 2 ^ 63 < w\<close> and \<open>w + 10 min \<le> 2 ^ 63\<close> nanoseconds).
  Saved by a \<^verbatim>\<open>writeCache\<close> that returns \<^verbatim>\<open>nil\<close> and loaded by \<^verbatim>\<open>readCache\<close> into the same
  limiter with an empty map, the map comes back with exactly the same entries, less
  those whose age at the time of the load exceeds the window and ten minutes.
\<close>

theorem writeCache_readCache_roundtrip:
  assumes "seen m \<noteq> Map.empty"
    and "writeCache encode m env fs = (None, fs')"
    and "encode (seen m) = seen m"
    and "- (2 ^ 63) < sint (age m)" and "sint (age m) \<le> 2 ^ 63 - 600000000000"
  shows "readCache (m\<lparr>seen := Map.empty\<rparr>) fs' now =
           (None, m\<lparr>seen :=
              (\<lambda>v. case seen m v of
                     None \<Rightarrow> None
                   | Some t \<Rightarrow>
                       if sint (age m) + 600000000000 < now - t then None else Some t)\<rparr>)"
proof -
  have k: "killtime m now = now - sint (age m) - 600000000000"
    using assms(4,5) by (rule killtime_exact)
  have "delete_before (killtime m now) (seen m) =
      (\<lambda>v. case seen m v of
             None \<Rightarrow> None
           | Some t \<Rightarrow> if sint (age m) + 600000000000 < now - t then None else Some t)"
    unfolding delete_before_def k Before_def
    by (auto simp: fun_eq_iff split: option.splits)
  then show ?thesis
    using writeCache_readCache_encoded [OF assms(1,2), of now] assms(3) by simp
qed

text \<open>
  Two entries saved at second 701 with a window of five seconds and loaded at the same
  time: the entry of second 0, older than the window and ten minutes, is dropped, the
  entry of second 700 comes back.
\<close>

theorem writeCache_readCache_roundtrip_witness:
  "seen (example_limiter\<lparr>seen := [''x'' \<mapsto> 0, ''y'' \<mapsto> 700000000000]\<rparr>) \<noteq> Map.empty \<and>
   fst (writeCache example_encode
          (example_limiter\<lparr>seen := [''x'' \<mapsto> 0, ''y'' \<mapsto> 700000000000]\<rparr>)
          example_io Map.empty) = None \<and>
   example_encode (seen (example_limiter\<lparr>seen := [''x'' \<mapsto> 0, ''y'' \<mapsto> 700000000000]\<rparr>)) =
     seen (example_limiter\<lparr>seen := [''x'' \<mapsto> 0, ''y'' \<mapsto> 700000000000]\<rparr>) \<and>
   - (2 ^ 63) < sint (age (example_limiter\<lparr>seen := [''x'' \<mapsto> 0, ''y'' \<mapsto> 700000000000]\<rparr>)) \<and>
   sint (age (example_limiter\<lparr>seen := [''x'' \<mapsto> 0, ''y'' \<mapsto> 700000000000]\<rparr>))
     \<le> 2 ^ 63 - 600000000000 \<and>
   readCache example_limiter
       (snd (writeCache example_encode
          (example_limiter\<lparr>seen := [''x'' \<mapsto> 0, ''y'' \<mapsto> 700000000000]\<rparr>)
          example_io Map.empty)) 701000000000 =
     (None, example_limiter\<lparr>seen := [''y'' \<mapsto> 700000000000]\<rparr>)"
proof -
  let ?m = "example_limiter\<lparr>seen := [''x'' \<mapsto> 0, ''y'' \<mapsto> 700000000000]\<rparr>"
  have h1: "seen ?m \<noteq> Map.empty"
    by simp
  have r: "fst (writeCache example_encode ?m example_io Map.empty) = None"
    by (simp add: writeCache_def Marshal_def TempFile_def Write_def Close_def Rename_def
        example_io_def example_limiter_def)
  then have h2: "writeCache example_encode ?m example_io Map.empty =
      (None, snd (writeCache example_encode ?m example_io Map.empty))"
    by (simp add: prod_eq_iff)
  have h3: "example_encode (seen ?m) = seen ?m"
    by (auto simp: example_encode_def fun_eq_iff)
  have h4: "- (2 ^ 63) < sint (age ?m)"
    by (simp add: example_limiter_def)
  have h5: "sint (age ?m) \<le> 2 ^ 63 - 600000000000"
    by (simp add: example_limiter_def)
  have e: "?m\<lparr>seen := Map.empty\<rparr> = example_limiter"
    by (simp add: example_limiter_def)
  have s: "?m\<lparr>seen := (\<lambda>v. case seen ?m v of
                     None \<Rightarrow> None
                   | Some t \<Rightarrow>
                       if sint (age ?m) + 600000000000 < 701000000000 - t then None
                       else Some t)\<rparr> =
      example_limiter\<lparr>seen := [''y'' \<mapsto> 700000000000]\<rparr>"
    by (auto simp: example_limiter_def fun_eq_iff)
  show ?thesis
    using h1 r h3 h4 h5 writeCache_readCache_roundtrip [OF h1 h2 h3 h4 h5, of 701000000000]
    by (simp only: e s simp_thms)
qed

text \<open>
  An empty map and a state file that holds one entry, left by an earlier run. Nothing is
  written, and the load into an empty map brings back the entry of the file.
\<close>

theorem writeCache_readCache_roundtrip_counterexample:
  "seen example_limiter = Map.empty \<and>
   fst (writeCache example_encode example_limiter example_io
          [''/s/t.json'' \<mapsto> Json [''a'' \<mapsto> 1000000000] True]) = None \<and>
   fst (readCache example_limiter
          (snd (writeCache example_encode example_limiter example_io
             [''/s/t.json'' \<mapsto> Json [''a'' \<mapsto> 1000000000] True])) 1000000000) = None \<and>
   seen (snd (readCache example_limiter
          (snd (writeCache example_encode example_limiter example_io
             [''/s/t.json'' \<mapsto> Json [''a'' \<mapsto> 1000000000] True])) 1000000000)) ''a'' =
     Some 1000000000 \<and>
   seen (snd (readCache example_limiter
          (snd (writeCache example_encode example_limiter example_io
             [''/s/t.json'' \<mapsto> Json [''a'' \<mapsto> 1000000000] True])) 1000000000)) \<noteq>
     seen example_limiter"
proof -
  have w: "writeCache example_encode example_limiter example_io
          [''/s/t.json'' \<mapsto> Json [''a'' \<mapsto> 1000000000] True] =
      (None, [''/s/t.json'' \<mapsto> Json [''a'' \<mapsto> 1000000000] True])"
    by (simp add: writeCache_def example_limiter_def)
  have a: "seen (snd (readCache example_limiter
          [''/s/t.json'' \<mapsto> Json [''a'' \<mapsto> 1000000000] True] 1000000000)) ''a'' =
     Some 1000000000"
    by (simp add: readCache_def ReadFile_def Unmarshal_def delete_before_def killtime_def
        Add_def Before_def Minute_def example_limiter_def)
  have f: "fst (readCache example_limiter
          [''/s/t.json'' \<mapsto> Json [''a'' \<mapsto> 1000000000] True] 1000000000) = None"
    by (simp add: readCache_def ReadFile_def Unmarshal_def example_limiter_def)
  have e: "seen example_limiter = Map.empty"
    by (simp add: example_limiter_def)
  have n: "seen (snd (readCache example_limiter
          [''/s/t.json'' \<mapsto> Json [''a'' \<mapsto> 1000000000] True] 1000000000)) \<noteq>
     seen example_limiter"
    using a e by (metis option.distinct(1))
  show ?thesis
    unfolding w using a f e n by simp
qed

text \<open>
  A key that is not valid UTF-8 does not come back: the entry of the key \<^verbatim>\<open>0xFF\<close>, saved
  and loaded at once, is found under the key U+FFFD.
\<close>

lemma writeCache_readCache_invalid_key:
  "fst (writeCache example_encode (example_limiter\<lparr>seen := [[CHR 0xFF] \<mapsto> 1000000000]\<rparr>)
          example_io Map.empty) = None \<and>
   readCache example_limiter
       (snd (writeCache example_encode
          (example_limiter\<lparr>seen := [[CHR 0xFF] \<mapsto> 1000000000]\<rparr>) example_io Map.empty))
       1000000000 =
     (None, example_limiter\<lparr>seen := [[CHR 0xEF, CHR 0xBF, CHR 0xBD] \<mapsto> 1000000000]\<rparr>)"
proof -
  let ?m = "example_limiter\<lparr>seen := [[CHR 0xFF] \<mapsto> 1000000000]\<rparr>"
  have h1: "seen ?m \<noteq> Map.empty"
    by simp
  have r: "fst (writeCache example_encode ?m example_io Map.empty) = None"
    by (simp add: writeCache_def Marshal_def TempFile_def Write_def Close_def Rename_def
        example_io_def example_limiter_def)
  then have h2: "writeCache example_encode ?m example_io Map.empty =
      (None, snd (writeCache example_encode ?m example_io Map.empty))"
    by (simp add: prod_eq_iff)
  have e: "?m\<lparr>seen := Map.empty\<rparr> = example_limiter"
    by (simp add: example_limiter_def)
  have s: "?m\<lparr>seen := delete_before (killtime ?m 1000000000) (example_encode (seen ?m))\<rparr> =
      example_limiter\<lparr>seen := [[CHR 0xEF, CHR 0xBF, CHR 0xBD] \<mapsto> 1000000000]\<rparr>"
    by (auto simp: example_limiter_def example_encode_def delete_before_def killtime_def
        Add_def Before_def Minute_def fun_eq_iff)
  show ?thesis
    using r writeCache_readCache_encoded [OF h1 h2, of 1000000000]
    by (simp only: e s simp_thms)
qed

section \<open>Scrubbing and the decision\<close>

text \<open>
  For a window \<open>w\<close> with \<open>- 2 ^ 63 < w\<close> and \<open>w + 10 min \<le> 2 ^ 63\<close> nanoseconds, the
  arithmetic of \<^verbatim>\<open>killtime\<close> does not wrap, and \<^verbatim>\<open>scrub\<close> removes exactly the entries whose
  age exceeds the window and ten minutes.
\<close>

lemma scrub_age:
  assumes "- (2 ^ 63) < sint (age m)" and "sint (age m) \<le> 2 ^ 63 - 600000000000"
  shows "seen (scrub m now) v =
           (case seen m v of
              None \<Rightarrow> None
            | Some t \<Rightarrow> if sint (age m) + 600000000000 < now - t then None else Some t)"
  unfolding scrub_def delete_before_def killtime_exact [OF assms] Before_def
  by (auto split: option.splits)

text \<open>
  C10. \<^verbatim>\<open>scrub\<close> never changes a decision: \<^verbatim>\<open>shouldProcess\<close> at the time \<open>now\<close> gives the same
  result after \<^verbatim>\<open>scrub\<close> at \<open>now\<close> as before it, for every value and every map. The window
  is one for which the arithmetic of \<^verbatim>\<open>killtime\<close> and of \<^verbatim>\<open>oldest\<close> does not wrap around:
  more than \<open>- 2 ^ 63\<close> nanoseconds and, with the ten minutes added, at most \<open>2 ^ 63\<close>.
\<close>

theorem scrub_keeps_decision:
  assumes "- (2 ^ 63) < sint (age m)" and "sint (age m) \<le> 2 ^ 63 - 600000000000"
  shows "shouldProcess (scrub m now) now val = shouldProcess m now val"
proof -
  have k: "killtime m now = now - sint (age m) - 600000000000"
    using assms by (rule killtime_exact)
  have "sint (age m) \<noteq> - (2 ^ 63)"
    using assms(1) by simp
  then have n: "Add now (- 1 * age m) = now - sint (age m)"
    by (rule oldest_exact)
  show ?thesis
    unfolding shouldProcess_def scrub_def delete_before_def k Before_def
    by (simp add: n [simplified] split: option.splits)
qed

text \<open>
  A window of five seconds, scrubbed at second 701: the entry of second 0 is removed and
  its value is processed before and after; the entry of second 700 stays and its value
  is suppressed before and after.
\<close>

theorem scrub_keeps_decision_witness:
  "- (2 ^ 63) < sint (age (example_limiter\<lparr>seen := [''x'' \<mapsto> 0, ''y'' \<mapsto> 700000000000]\<rparr>)) \<and>
   sint (age (example_limiter\<lparr>seen := [''x'' \<mapsto> 0, ''y'' \<mapsto> 700000000000]\<rparr>))
     \<le> 2 ^ 63 - 600000000000 \<and>
   seen (scrub (example_limiter\<lparr>seen := [''x'' \<mapsto> 0, ''y'' \<mapsto> 700000000000]\<rparr>)
     701000000000) ''x'' = None \<and>
   shouldProcess (example_limiter\<lparr>seen := [''x'' \<mapsto> 0, ''y'' \<mapsto> 700000000000]\<rparr>)
     701000000000 ''x'' \<and>
   shouldProcess (scrub (example_limiter\<lparr>seen := [''x'' \<mapsto> 0, ''y'' \<mapsto> 700000000000]\<rparr>)
     701000000000) 701000000000 ''x'' \<and>
   \<not> shouldProcess (example_limiter\<lparr>seen := [''x'' \<mapsto> 0, ''y'' \<mapsto> 700000000000]\<rparr>)
     701000000000 ''y'' \<and>
   \<not> shouldProcess (scrub (example_limiter\<lparr>seen := [''x'' \<mapsto> 0, ''y'' \<mapsto> 700000000000]\<rparr>)
     701000000000) 701000000000 ''y''"
proof -
  let ?m = "example_limiter\<lparr>seen := [''x'' \<mapsto> 0, ''y'' \<mapsto> 700000000000]\<rparr>"
  have h1: "- (2 ^ 63) < sint (age ?m)"
    by (simp add: example_limiter_def)
  have h2: "sint (age ?m) \<le> 2 ^ 63 - 600000000000"
    by (simp add: example_limiter_def)
  have x: "seen (scrub ?m 701000000000) ''x'' = None"
    by (simp add: scrub_def delete_before_def killtime_def Add_def Before_def Minute_def
        example_limiter_def)
  have px: "shouldProcess ?m 701000000000 ''x''"
    by (simp add: shouldProcess_def Add_def Before_def example_limiter_def)
  have py: "\<not> shouldProcess ?m 701000000000 ''y''"
    by (simp add: shouldProcess_def Add_def Before_def example_limiter_def)
  show ?thesis
    using h1 h2 x px py
      scrub_keeps_decision [OF h1 h2, of 701000000000 "''x''"]
      scrub_keeps_decision [OF h1 h2, of 701000000000 "''y''"]
    by simp
qed

section \<open>Time stamps in the future\<close>

text \<open>
  C8. The record of \<^verbatim>\<open>ProcessAndRecord\<close> keeps the map free of time stamps in the future:
  if no entry is after the time of the decision, and the clock has not run backwards
  when the value is recorded, no entry is after the time of the record. \<^verbatim>\<open>readCache\<close>
  keeps the map free of them when no time stamp that it decodes from the state file is
  after the time of the load; it does not look at the time stamps of the file otherwise
  than to drop the old ones.
\<close>

theorem no_future_preserved:
  "(no_future (seen m) now \<and> now \<le> now' \<longrightarrow>
      no_future (seen (fst (snd (ProcessAndRecord GetBytes m c now now' msg f)))) now') \<and>
   (no_future (seen m) now \<and> (\<forall>d. fs (statefile m) = Some d \<longrightarrow> content_no_future d now) \<longrightarrow>
      no_future (seen (snd (readCache m fs now))) now)"
proof (intro conjI impI)
  assume "no_future (seen m) now \<and> now \<le> now'"
  then have old: "no_future (seen m) now'"
    by (fastforce simp: no_future_def)
  then have "no_future ((seen m)(v \<mapsto> now')) now'" for v
    by (simp add: no_future_def)
  with old show "no_future (seen (fst (snd (ProcessAndRecord GetBytes m c now now' msg f)))) now'"
    by (simp add: ProcessAndRecord_def Let_def split: option.splits)
next
  assume a: "no_future (seen m) now \<and>
    (\<forall>d. fs (statefile m) = Some d \<longrightarrow> content_no_future d now)"
  have d: "no_future (delete_before kt s) now" if "no_future s now" for kt s
    using that by (auto simp: no_future_def delete_before_def split: option.splits if_splits)
  have u: "no_future (s ++ es) now" if "no_future s now" "no_future es now" for s es
    using that by (auto simp: no_future_def map_add_def split: option.splits)
  show "no_future (seen (snd (readCache m fs now))) now"
    using a d u
    by (auto simp: readCache_def ReadFile_def Unmarshal_def content_no_future_def
        split: option.splits content.splits if_splits)
qed

text \<open>
  A record at second 2 into a map with an entry of second 1, and a load at second 2 of a
  state file with an entry of second 1.
\<close>

theorem no_future_preserved_witness:
  "no_future (seen (example_limiter\<lparr>seen := [''x'' \<mapsto> 1000000000]\<rparr>)) 2000000000 \<and>
   (2000000000 :: time) \<le> 2000000001 \<and>
   seen (fst (snd (ProcessAndRecord example_GetBytes
       (example_limiter\<lparr>seen := [''x'' \<mapsto> 1000000000]\<rparr>) example_counters
       2000000000 2000000001 ''z'' example_accept))) ''z'' = Some 2000000001 \<and>
   no_future (seen (fst (snd (ProcessAndRecord example_GetBytes
       (example_limiter\<lparr>seen := [''x'' \<mapsto> 1000000000]\<rparr>) example_counters
       2000000000 2000000001 ''z'' example_accept)))) 2000000001 \<and>
   no_future (seen example_limiter) 2000000000 \<and>
   content_no_future (Json [''a'' \<mapsto> 1000000000] True) 2000000000 \<and>
   seen (snd (readCache example_limiter
       [''/s/t.json'' \<mapsto> Json [''a'' \<mapsto> 1000000000] True] 2000000000)) ''a'' =
     Some 1000000000 \<and>
   no_future (seen (snd (readCache example_limiter
       [''/s/t.json'' \<mapsto> Json [''a'' \<mapsto> 1000000000] True] 2000000000))) 2000000000"
proof -
  let ?m = "example_limiter\<lparr>seen := [''x'' \<mapsto> 1000000000]\<rparr>"
  let ?fs = "[''/s/t.json'' \<mapsto> Json [''a'' \<mapsto> 1000000000] True]"
  have h1: "no_future (seen ?m) 2000000000"
    by (simp add: no_future_def)
  have h2: "(2000000000 :: time) \<le> 2000000001"
    by simp
  have h3: "no_future (seen example_limiter) 2000000000"
    by (simp add: no_future_def example_limiter_def)
  have h4: "content_no_future (Json [''a'' \<mapsto> 1000000000] True) 2000000000"
    by (simp add: content_no_future_def no_future_def)
  have h5: "\<forall>d. ?fs (statefile example_limiter) = Some d \<longrightarrow> content_no_future d 2000000000"
    using h4 by (simp add: example_limiter_def)
  have z: "seen (fst (snd (ProcessAndRecord example_GetBytes ?m example_counters
       2000000000 2000000001 ''z'' example_accept))) ''z'' = Some 2000000001"
    by (simp add: ProcessAndRecord_def shouldProcess_def example_limiter_def
        example_GetBytes_def example_accept_def)
  have a: "seen (snd (readCache example_limiter ?fs 2000000000)) ''a'' = Some 1000000000"
    by (simp add: readCache_def ReadFile_def Unmarshal_def delete_before_def killtime_def
        Add_def Before_def Minute_def example_limiter_def)
  have p: "no_future (seen (fst (snd (ProcessAndRecord example_GetBytes ?m example_counters
       2000000000 2000000001 ''z'' example_accept)))) 2000000001"
    using h1 h2
      no_future_preserved [where m = ?m and now = 2000000000 and now' = 2000000001
        and GetBytes = example_GetBytes and c = example_counters and msg = "''z''"
        and f = example_accept and fs = ?fs]
    by blast
  have q: "no_future (seen (snd (readCache example_limiter ?fs 2000000000))) 2000000000"
    using h3 h5
      no_future_preserved [where m = example_limiter and now = 2000000000
        and now' = 2000000001 and GetBytes = example_GetBytes and c = example_counters
        and msg = "''z''" and f = example_accept and fs = ?fs]
    by blast
  show ?thesis
    using h1 h2 h3 h4 z a p q by simp
qed

text \<open>
  A load at second 1 of a state file with an entry of second 2: the map, empty before,
  holds a time stamp in the future.
\<close>

theorem no_future_preserved_counterexample:
  "no_future (seen example_limiter) 1000000000 \<and>
   fst (readCache example_limiter
       [''/s/t.json'' \<mapsto> Json [''a'' \<mapsto> 2000000000] True] 1000000000) = None \<and>
   seen (snd (readCache example_limiter
       [''/s/t.json'' \<mapsto> Json [''a'' \<mapsto> 2000000000] True] 1000000000)) ''a'' =
     Some 2000000000 \<and>
   \<not> no_future (seen (snd (readCache example_limiter
       [''/s/t.json'' \<mapsto> Json [''a'' \<mapsto> 2000000000] True] 1000000000))) 1000000000"
proof -
  let ?fs = "[''/s/t.json'' \<mapsto> Json [''a'' \<mapsto> 2000000000] True]"
  have h: "no_future (seen example_limiter) 1000000000"
    by (simp add: no_future_def example_limiter_def)
  have f: "fst (readCache example_limiter ?fs 1000000000) = None"
    by (simp add: readCache_def ReadFile_def Unmarshal_def example_limiter_def)
  have a: "seen (snd (readCache example_limiter ?fs 1000000000)) ''a'' = Some 2000000000"
    by (simp add: readCache_def ReadFile_def Unmarshal_def delete_before_def killtime_def
        Add_def Before_def Minute_def example_limiter_def)
  have n: "\<not> no_future (seen (snd (readCache example_limiter ?fs 1000000000))) 1000000000"
    unfolding no_future_def using a by force
  show ?thesis
    using h f a n by simp
qed

end
